theory Spec2Isabelle
  imports
    Main
    "HOL-Library.Sublist"
    "HOL-Library.Stream"
    "HOL-Library.Char_ord"
    "HOL-Library.List_Lexorder"
begin

section \<open>The number guessing game: data model\<close>

text \<open>
  The program is \<^verbatim>\<open>src/guessing.py\<close>: a console game with a leaderboard kept in one
  JSON file. Exceptions are values of \<open>error\<close>; a function that can raise returns
  \<open>error + 'a\<close> with \<open>Inl\<close> for the exception that reaches its caller.
\<close>

datatype error =
    EOFError | KeyError | TypeError | ValueError | AttributeError
  | OSError | UnicodeDecodeError

text \<open>
  The scalar values of decoded JSON (floating point numbers are outside the model).
\<close>

datatype jval = JNull | JBool bool | JInt int | JStr string

text \<open>
  What \<^verbatim>\<open>print\<close> writes, one constructor per message of the source that matters to
  the behaviour. Banners, separators and screen clearing are left out of the trace.
\<close>

datatype event =
    Prompt_guess int
  | Out_of_range int
  | Invalid_input
  | Attempts_left int
  | Congratulations string int int
  | Too_low
  | Too_high
  | Hint string
  | Game_over int
  | Warning_unreadable
  | Error_saving
  | Score_saved
  | Invalid_difficulty
  | No_scores
  | Score_row int jval jval jval jval
  | Goodbye
  | Invalid_menu_choice

subsection \<open>Decoded JSON\<close>

text \<open>
  The values \<^verbatim>\<open>json.load\<close> can return, restricted to documents of the shape the
  leaderboard file has: scalars, flat objects, and arrays of scalars and flat objects.
  Deeper nesting is outside the model. An object is the association list of its keys
  in file order.
\<close>

datatype jitem = Scalar jval | Obj "(string \<times> jval) list"

datatype json = Item jitem | Arr "jitem list"

text \<open>
  The backing file \<^verbatim>\<open>high_scores.json\<close>, by what reading it does:
  \<^item> \<open>Absent\<close>: \<^verbatim>\<open>os.path.exists\<close> is false;
  \<^item> \<open>Unreadable\<close>: the path exists and \<^verbatim>\<open>open(..., 'r')\<close> raises \<^verbatim>\<open>OSError\<close>
    (no read permission, or the path is a directory);
  \<^item> \<open>Not_text\<close>: the file opens and its bytes are not text in the encoding of
    \<^verbatim>\<open>open\<close>, so the read inside \<^verbatim>\<open>json.load\<close> raises \<^verbatim>\<open>UnicodeDecodeError\<close>;
  \<^item> \<open>Undecodable\<close>: the file is read as text and \<^verbatim>\<open>json.load\<close> rejects the text
    with \<^verbatim>\<open>JSONDecodeError\<close>;
  \<^item> \<open>Holds j\<close>: the file is read as text and \<^verbatim>\<open>json.load\<close> returns \<open>j\<close>.
\<close>

datatype file_state = Absent | Unreadable | Not_text | Undecodable | Holds json

text \<open>
  What the operating system does with \<^verbatim>\<open>open(HIGH_SCORES_FILE, 'w')\<close> and the
  \<^verbatim>\<open>json.dump\<close> that follows. The write goes through; or \<^verbatim>\<open>open\<close> raises
  \<^verbatim>\<open>IOError\<close> (permission denied) and the file is untouched; or \<^verbatim>\<open>open\<close> has
  truncated the file and a write raises \<^verbatim>\<open>IOError\<close> (disk full), which leaves a
  proper prefix of the serialised array, text that no longer decodes; or everything is
  written and closing the file raises \<^verbatim>\<open>IOError\<close>.
\<close>

datatype write_outcome = Write_ok | Open_refused | Write_torn | Close_failed

section \<open>Leaderboard store\<close>

subsection \<open>Python's iteration, subscription and sort on decoded JSON\<close>

text \<open>
  \<^verbatim>\<open>sorted(scores, ...)\<close> first iterates over \<^verbatim>\<open>scores\<close>: a list yields its
  elements, a dict its keys, a string its characters; \<^verbatim>\<open>None\<close>, booleans and integers
  are not iterable.
\<close>

fun py_iter :: "json \<Rightarrow> error + jitem list" where
  "py_iter (Arr xs) = Inr xs"
| "py_iter (Item (Obj kvs)) = Inr (map (\<lambda>kv. Scalar (JStr (fst kv))) kvs)"
| "py_iter (Item (Scalar (JStr s))) = Inr (map (\<lambda>c. Scalar (JStr [c])) s)"
| "py_iter (Item (Scalar v)) = Inl TypeError"

text \<open>
  \<^verbatim>\<open>x[key]\<close> with a string key: a dict looks the key up; a string, a number,
  a boolean or \<^verbatim>\<open>None\<close> raises \<^verbatim>\<open>TypeError\<close>.
\<close>

fun subscript :: "jitem \<Rightarrow> string \<Rightarrow> error + jval" where
  "subscript (Obj kvs) key =
     (case map_of kvs key of None \<Rightarrow> Inl KeyError | Some v \<Rightarrow> Inr v)"
| "subscript (Scalar v) key = Inl TypeError"

text \<open>The key function \<^verbatim>\<open>lambda x: x['attempts']\<close>.\<close>

definition attempts_key :: "jitem \<Rightarrow> error + jval" where
  "attempts_key x = subscript x ''attempts''"

text \<open>
  The sort computes the key of every element, in order, before it compares anything;
  the first key that raises ends the call.
\<close>

fun keyed :: "jitem list \<Rightarrow> error + (jval \<times> jitem) list" where
  "keyed [] = Inr []"
| "keyed (x # xs) =
     (case attempts_key x of
        Inl e \<Rightarrow> Inl e
      | Inr k \<Rightarrow> (case keyed xs of Inl e \<Rightarrow> Inl e | Inr ks \<Rightarrow> Inr ((k, x) # ks)))"

text \<open>
  Python orders numbers (booleans count as 0 and 1) among themselves and strings
  among themselves; every other comparison of two scalars raises \<^verbatim>\<open>TypeError\<close>.
\<close>

fun is_num :: "jval \<Rightarrow> bool" where
  "is_num (JInt i) = True"
| "is_num (JBool b) = True"
| "is_num v = False"

fun num_of :: "jval \<Rightarrow> int" where
  "num_of (JInt i) = i"
| "num_of (JBool b) = (if b then 1 else 0)"
| "num_of v = 0"

fun is_str :: "jval \<Rightarrow> bool" where
  "is_str (JStr s) = True"
| "is_str v = False"

fun str_of :: "jval \<Rightarrow> string" where
  "str_of (JStr s) = s"
| "str_of v = []"

text \<open>
  The sort is stable. With fewer than two elements nothing is compared. With two or
  more, keys of one comparable kind are sorted; any other mix has a pair that the sort
  must compare and cannot, so it raises.
\<close>

definition sort_keyed :: "(jval \<times> jitem) list \<Rightarrow> error + jitem list" where
  "sort_keyed ks =
     (if length ks \<le> 1 then Inr (map snd ks)
      else if list_all (\<lambda>p. is_num (fst p)) ks
        then Inr (map snd (sort_key (\<lambda>p. num_of (fst p)) ks))
      else if list_all (\<lambda>p. is_str (fst p)) ks
        then Inr (map snd (sort_key (\<lambda>p. str_of (fst p)) ks))
      else Inl TypeError)"

definition sorted_by_attempts :: "jitem list \<Rightarrow> error + jitem list" where
  "sorted_by_attempts xs =
     (case keyed xs of Inl e \<Rightarrow> Inl e | Inr ks \<Rightarrow> sort_keyed ks)"

subsection \<open>load_high_scores and save_high_score\<close>

text \<open>
  \<^verbatim>\<open>load_high_scores\<close> (lines 87 to 98). The result pairs what was printed with the
  returned list, or with the exception that left the function: only
  \<^verbatim>\<open>JSONDecodeError\<close> is caught, so the \<^verbatim>\<open>OSError\<close> of \<^verbatim>\<open>open\<close>, the
  \<^verbatim>\<open>UnicodeDecodeError\<close> of the read, and the exceptions of the sort reach the caller.
\<close>

fun load_high_scores :: "file_state \<Rightarrow> event list \<times> (error + jitem list)" where
  "load_high_scores Absent = ([], Inr [])"
| "load_high_scores Unreadable = ([], Inl OSError)"
| "load_high_scores Not_text = ([], Inl UnicodeDecodeError)"
| "load_high_scores Undecodable = ([Warning_unreadable], Inr [])"
| "load_high_scores (Holds scores) =
     ([], case py_iter scores of Inl e \<Rightarrow> Inl e | Inr xs \<Rightarrow> sorted_by_attempts xs)"

text \<open>
  \<^verbatim>\<open>save_high_score\<close> (lines 100 to 110). Loading and sorting happen outside the
  \<^verbatim>\<open>try\<close>, so their exceptions leave the function with the file as it was. The
  result is what was printed, then the exception or the file as the call leaves it.
\<close>

definition save_high_score ::
  "write_outcome \<Rightarrow> jitem \<Rightarrow> file_state \<Rightarrow> event list \<times> (error + file_state)" where
  "save_high_score w score file =
     (case load_high_scores file of
        (out, Inl e) \<Rightarrow> (out, Inl e)
      | (out, Inr scores) \<Rightarrow>
          (case sorted_by_attempts (scores @ [score]) of
             Inl e \<Rightarrow> (out, Inl e)
           | Inr scores' \<Rightarrow>
               (case w of
                  Write_ok \<Rightarrow> (out, Inr (Holds (Arr scores')))
                | Open_refused \<Rightarrow> (out @ [Error_saving], Inr file)
                | Write_torn \<Rightarrow> (out @ [Error_saving], Inr Undecodable)
                | Close_failed \<Rightarrow> (out @ [Error_saving], Inr (Holds (Arr scores'))))))"

text \<open>
  A run of calls to \<^verbatim>\<open>save_high_score\<close>, each with the record to save and what the
  operating system does with its write. An exception ends the run, as it ends the
  process.
\<close>

fun save_all ::
  "(write_outcome \<times> jitem) list \<Rightarrow> file_state \<Rightarrow> event list \<times> (error + file_state)" where
  "save_all [] file = ([], Inr file)"
| "save_all ((w, score) # rest) file =
     (case save_high_score w score file of
        (out, Inl e) \<Rightarrow> (out, Inl e)
      | (out, Inr file') \<Rightarrow>
          (case save_all rest file' of (out', r) \<Rightarrow> (out @ out', r)))"

text \<open>
  A score record as \<^verbatim>\<open>play_game\<close> builds it (lines 177 to 182), and the test for the
  one field the store reads: an object whose \<^verbatim>\<open>attempts\<close> is an integer.
\<close>

definition score_record :: "string \<Rightarrow> string \<Rightarrow> int \<Rightarrow> string \<Rightarrow> jitem" where
  "score_record player_name difficulty_choice attempts_made today =
     Obj [(''name'', JStr player_name), (''difficulty'', JStr difficulty_choice),
          (''attempts'', JInt attempts_made), (''date'', JStr today)]"

fun int_attempts :: "jitem \<Rightarrow> int option" where
  "int_attempts (Obj kvs) =
     (case map_of kvs ''attempts'' of Some (JInt a) \<Rightarrow> Some a | _ \<Rightarrow> None)"
| "int_attempts (Scalar v) = None"

definition well_formed :: "jitem \<Rightarrow> bool" where
  "well_formed x = (int_attempts x \<noteq> None)"

text \<open>
  A leaderboard file in good order: missing, or read as text that
  \<^verbatim>\<open>json.load\<close> rejects with \<^verbatim>\<open>JSONDecodeError\<close>, or holding an array of
  well-formed records. A file that cannot be opened or is not text is not in good order.
\<close>

fun store_ok :: "file_state \<Rightarrow> bool" where
  "store_ok Absent = True"
| "store_ok Unreadable = False"
| "store_ok Not_text = False"
| "store_ok Undecodable = True"
| "store_ok (Holds (Arr xs)) = list_all well_formed xs"
| "store_ok (Holds (Item x)) = False"

definition attempts_of :: "jitem \<Rightarrow> int" where
  "attempts_of x = (case int_attempts x of Some a \<Rightarrow> a | None \<Rightarrow> 0)"

text \<open>The \<^verbatim>\<open>attempts\<close> column of a list of well-formed records, in list order.\<close>

fun attempts_list :: "jitem list \<Rightarrow> int list option" where
  "attempts_list [] = Some []"
| "attempts_list (x # xs) =
     (case int_attempts x of
        None \<Rightarrow> None
      | Some a \<Rightarrow> (case attempts_list xs of None \<Rightarrow> None | Some as \<Rightarrow> Some (a # as)))"

section \<open>Random numbers\<close>

text \<open>
  The generator is the stream of its raw draws. \<^verbatim>\<open>_randbelow(n)\<close> takes the next
  draw into \<open>{0..<n}\<close>; every value below \<open>n\<close> is the result for some draw.
\<close>

definition randbelow :: "nat \<Rightarrow> nat stream \<Rightarrow> nat \<times> nat stream" where
  "randbelow n rng = (shd rng mod n, stl rng)"

text \<open>
  \<^verbatim>\<open>random.randint(a, b)\<close> is \<^verbatim>\<open>randrange(a, b + 1)\<close>, which raises
  \<^verbatim>\<open>ValueError\<close> on an empty range.
\<close>

definition randint :: "int \<Rightarrow> int \<Rightarrow> nat stream \<Rightarrow> (error + int) \<times> nat stream" where
  "randint a b rng =
     (if b + 1 - a \<le> 0 then (Inl ValueError, rng)
      else (case randbelow (nat (b + 1 - a)) rng of (r, rng') \<Rightarrow> (Inr (a + int r), rng')))"

text \<open>
  \<^verbatim>\<open>random.shuffle(x)\<close>: for \<open>i\<close> from \<open>len(x) - 1\<close> down to 1, swap \<open>x[i]\<close> with
  \<open>x[j]\<close> for a random \<open>j \<le> i\<close>.
\<close>

fun shuffle_from :: "nat \<Rightarrow> 'a list \<Rightarrow> nat stream \<Rightarrow> 'a list \<times> nat stream" where
  "shuffle_from 0 x rng = (x, rng)"
| "shuffle_from (Suc i) x rng =
     (case randbelow (Suc i + 1) rng of
        (j, rng') \<Rightarrow> shuffle_from i (x[Suc i := x ! j, j := x ! Suc i]) rng')"

definition shuffle :: "'a list \<Rightarrow> nat stream \<Rightarrow> 'a list \<times> nat stream" where
  "shuffle x rng = shuffle_from (length x - 1) x rng"

section \<open>Session engine\<close>

subsection \<open>Difficulty settings and the secret number\<close>

record settings =
  tries :: int
  range' :: int

definition DIFFICULTIES :: "(string \<times> settings) list" where
  "DIFFICULTIES =
     [(''easy'', \<lparr>tries = 10, range' = 100\<rparr>),
      (''medium'', \<lparr>tries = 7, range' = 100\<rparr>),
      (''hard'', \<lparr>tries = 5, range' = 100\<rparr>)]"

text \<open>\<^verbatim>\<open>generate_secret_number\<close> (lines 40 to 43).\<close>

definition generate_secret_number ::
  "string \<Rightarrow> nat stream \<Rightarrow> (error + int) \<times> nat stream" where
  "generate_secret_number difficulty_level rng =
     (case map_of DIFFICULTIES difficulty_level of
        None \<Rightarrow> (Inl KeyError, rng)
      | Some s \<Rightarrow> randint 1 (range' s) rng)"

subsection \<open>Hints\<close>

text \<open>\<^verbatim>\<open>str\<close> of an integer: decimal digits, with a minus sign below zero.\<close>

definition digit_char :: "nat \<Rightarrow> char" where
  "digit_char d = ''0123456789'' ! d"

fun digits :: "nat \<Rightarrow> string" where
  "digits n = (if n < 10 then [digit_char n] else digits (n div 10) @ [digit_char (n mod 10)])"

definition str_int :: "int \<Rightarrow> string" where
  "str_int i = (if i < 0 then CHR ''-'' # digits (nat (- i)) else digits (nat i))"

text \<open>
  \<^verbatim>\<open>generate_hint\<close> (lines 57 to 85) in two steps: the list of candidates it builds
  (lines 59 to 81), then the shuffle and the join of the first two (lines 84 and 85).
\<close>

definition hint_candidates :: "int \<Rightarrow> int option \<Rightarrow> string list" where
  "hint_candidates secret_number last_guess =
     (if secret_number mod 2 = 0 then [''The number is even.'']
      else [''The number is odd.''])
     @ (if secret_number > 10 then
          (if secret_number mod 3 = 0 then [''It is divisible by 3.'']
           else if secret_number mod 5 = 0 then [''It is divisible by 5.'']
           else if secret_number mod 7 = 0 then [''It is divisible by 7.'']
           else [])
        else [])
     @ (case last_guess of
          None \<Rightarrow> []
        | Some g \<Rightarrow>
            if g < secret_number then [''It's greater than '' @ str_int g @ ''.'']
            else if g > secret_number then [''It's less than '' @ str_int g @ ''.'']
            else [])"

fun join_space :: "string list \<Rightarrow> string" where
  "join_space [] = []"
| "join_space [x] = x"
| "join_space (x # y # ys) = x @ '' '' @ join_space (y # ys)"

definition generate_hint ::
  "int \<Rightarrow> int \<Rightarrow> int option \<Rightarrow> nat stream \<Rightarrow> string \<times> nat stream" where
  "generate_hint secret_number attempts_made last_guess rng =
     (case shuffle (hint_candidates secret_number last_guess) rng of
        (hints, rng') \<Rightarrow> (join_space (take 2 hints), rng'))"

text \<open>The wordings of the hints, by name.\<close>

definition hint_even :: string where
  "hint_even = ''The number is even.''"

definition hint_odd :: string where
  "hint_odd = ''The number is odd.''"

definition hint_divisible :: "int \<Rightarrow> string" where
  "hint_divisible d = ''It is divisible by '' @ str_int d @ ''.''"

definition hint_greater :: "int \<Rightarrow> string" where
  "hint_greater g = ''It's greater than '' @ str_int g @ ''.''"

definition hint_less :: "int \<Rightarrow> string" where
  "hint_less g = ''It's less than '' @ str_int g @ ''.''"

text \<open>
  The three kinds of hint the specification names, told apart by their wording.
\<close>

definition is_parity_hint :: "string \<Rightarrow> bool" where
  "is_parity_hint h = (h = ''The number is even.'' \<or> h = ''The number is odd.'')"

definition is_divisibility_hint :: "string \<Rightarrow> bool" where
  "is_divisibility_hint h = prefix ''It is divisible by '' h"

definition is_proximity_hint :: "string \<Rightarrow> bool" where
  "is_proximity_hint h = (prefix ''It's greater than '' h \<or> prefix ''It's less than '' h)"

subsection \<open>Console input\<close>

text \<open>
  Standard input is the lazy list of the lines still to be read: finite when the
  input ends, infinite when the player never stops typing. \<^verbatim>\<open>input()\<close> takes the
  first line and raises \<^verbatim>\<open>EOFError\<close> when there is none.
\<close>

codatatype (lset: 'a) llist = LNil | LCons (lhd: 'a) (ltl: "'a llist")

text \<open>A finite run of lines in front of the rest of the input.\<close>

fun prepend :: "'a list \<Rightarrow> 'a llist \<Rightarrow> 'a llist" where
  "prepend [] rest = rest"
| "prepend (x # xs) rest = LCons x (prepend xs rest)"

text \<open>The input of a player who types the same line for ever.\<close>

primcorec repeat_line :: "'a \<Rightarrow> 'a llist" where
  "repeat_line x = LCons x (repeat_line x)"

text \<open>
  Python's built-in conversions are parameters of the model: \<open>py_int\<close> is
  \<^verbatim>\<open>int\<close> on a string, with \<open>None\<close> where it raises \<^verbatim>\<open>ValueError\<close>;
  \<open>py_strip\<close> and \<open>py_lower\<close> are \<^verbatim>\<open>str.strip\<close> and \<^verbatim>\<open>str.lower\<close>.
\<close>

record pylib =
  py_int :: "string \<Rightarrow> int option"
  py_strip :: "string \<Rightarrow> string"
  py_lower :: "string \<Rightarrow> string"

text \<open>
  \<^verbatim>\<open>get_user_guess\<close> (lines 45 to 55). The loop has no bound: on an input whose lines
  are all rejected it never returns, which is the value \<open>None\<close>. The result is the
  output so far, the input left, and the guess or the exception.
\<close>

partial_function (option) get_user_guess ::
  "(string \<Rightarrow> int option) \<Rightarrow> int \<Rightarrow> string llist \<Rightarrow> event list
     \<Rightarrow> (event list \<times> string llist \<times> (error + int)) option" where
  "get_user_guess to_int max_range stdin out =
     (case stdin of
        LNil \<Rightarrow> Some (out @ [Prompt_guess max_range], LNil, Inl EOFError)
      | LCons line rest \<Rightarrow>
          (case to_int line of
             None \<Rightarrow>
               get_user_guess to_int max_range rest
                 (out @ [Prompt_guess max_range, Invalid_input])
           | Some guess \<Rightarrow>
               if 1 \<le> guess \<and> guess \<le> max_range
               then Some (out @ [Prompt_guess max_range], rest, Inr guess)
               else get_user_guess to_int max_range rest
                      (out @ [Prompt_guess max_range, Out_of_range max_range])))"

text \<open>
  A line that \<^verbatim>\<open>get_user_guess\<close> turns down, and what the console shows for it: the
  prompt, then the complaint.
\<close>

definition rejected :: "(string \<Rightarrow> int option) \<Rightarrow> int \<Rightarrow> string \<Rightarrow> bool" where
  "rejected to_int max_range line =
     (case to_int line of None \<Rightarrow> True | Some g \<Rightarrow> \<not> (1 \<le> g \<and> g \<le> max_range))"

definition reprompt :: "(string \<Rightarrow> int option) \<Rightarrow> int \<Rightarrow> string \<Rightarrow> event list" where
  "reprompt to_int max_range line =
     (case to_int line of
        None \<Rightarrow> [Prompt_guess max_range, Invalid_input]
      | Some g \<Rightarrow> [Prompt_guess max_range, Out_of_range max_range])"

text \<open>\<^verbatim>\<open>get_player_name\<close> (lines 23 to 26).\<close>

definition get_player_name ::
  "(string \<Rightarrow> string) \<Rightarrow> string llist \<Rightarrow> string llist \<times> (error + string)" where
  "get_player_name strip stdin =
     (case stdin of
        LNil \<Rightarrow> (LNil, Inl EOFError)
      | LCons line rest \<Rightarrow>
          (rest, Inr (if strip line \<noteq> [] then strip line else ''Anonymous'')))"

text \<open>\<^verbatim>\<open>get_difficulty_choice\<close> (lines 28 to 38); the menu text is not in the trace.\<close>

partial_function (option) get_difficulty_choice ::
  "(string \<Rightarrow> string) \<Rightarrow> string llist \<Rightarrow> event list
     \<Rightarrow> (event list \<times> string llist \<times> (error + string)) option" where
  "get_difficulty_choice lower stdin out =
     (case stdin of
        LNil \<Rightarrow> Some (out, LNil, Inl EOFError)
      | LCons line rest \<Rightarrow>
          if map_of DIFFICULTIES (lower line) \<noteq> None
          then Some (out, rest, Inr (lower line))
          else get_difficulty_choice lower rest (out @ [Invalid_difficulty]))"

subsection \<open>The guessing loop\<close>

record session =
  attempts_made :: int
  last_guess :: "int option"
  game_won :: bool

text \<open>
  The body of the \<^verbatim>\<open>while\<close> loop of \<^verbatim>\<open>play_game\<close> after \<^verbatim>\<open>get_user_guess\<close> has
  returned \<open>guess\<close> (lines 156 to 170): what it prints, the generator and the session
  afterwards, and whether it left the loop by \<^verbatim>\<open>break\<close>.
\<close>

definition guess_round ::
  "string \<Rightarrow> int \<Rightarrow> session \<Rightarrow> int \<Rightarrow> nat stream
     \<Rightarrow> event list \<times> nat stream \<times> session \<times> bool" where
  "guess_round player_name secret_number s guess rng =
     (let s1 = s\<lparr>last_guess := Some guess, attempts_made := attempts_made s + 1\<rparr> in
      if guess = secret_number
      then ([Congratulations player_name secret_number (attempts_made s1)], rng,
            s1\<lparr>game_won := True\<rparr>, True)
      else
        (let feedback = (if guess < secret_number then Too_low else Too_high) in
         if attempts_made s1 \<ge> 3 \<and> \<not> game_won s1
            \<and> (attempts_made s1 = 3 \<or> (attempts_made s1 > 3 \<and> attempts_made s1 mod 2 = 1))
         then (case generate_hint secret_number (attempts_made s1) (last_guess s1) rng of
                 (h, rng') \<Rightarrow> ([feedback, Hint h], rng', s1, False))
         else ([feedback], rng, s1, False)))"

text \<open>
  The \<^verbatim>\<open>while\<close> loop of \<^verbatim>\<open>play_game\<close> (lines 153 to 170). An exception from
  \<^verbatim>\<open>input\<close> leaves the loop; \<open>None\<close> is a call of \<^verbatim>\<open>get_user_guess\<close> that never
  returns.
\<close>

function guess_loop ::
  "(string \<Rightarrow> int option) \<Rightarrow> string \<Rightarrow> int \<Rightarrow> int \<Rightarrow> int \<Rightarrow> session \<Rightarrow> nat stream
     \<Rightarrow> string llist \<Rightarrow> event list
     \<Rightarrow> (event list \<times> string llist \<times> nat stream \<times> (error + session)) option" where
  "guess_loop to_int player_name secret_number max_attempts max_range s rng stdin out =
     (if attempts_made s < max_attempts then
        (case get_user_guess to_int max_range stdin
                (out @ [Attempts_left (max_attempts - attempts_made s)]) of
           None \<Rightarrow> None
         | Some (out1, stdin1, Inl e) \<Rightarrow> Some (out1, stdin1, rng, Inl e)
         | Some (out1, stdin1, Inr guess) \<Rightarrow>
             (case guess_round player_name secret_number s guess rng of
                (evs, rng1, s1, stop) \<Rightarrow>
                  if stop then Some (out1 @ evs, stdin1, rng1, Inr s1)
                  else guess_loop to_int player_name secret_number max_attempts max_range
                         s1 rng1 stdin1 (out1 @ evs)))
      else Some (out, stdin, rng, Inr s))"
  by pat_completeness auto
termination
  by (relation "measure (\<lambda>(to_int, player_name, secret_number, max_attempts, max_range,
                            s, rng, stdin, out). nat (max_attempts - attempts_made s))")
     (auto simp: guess_round_def Let_def split: if_splits prod.splits)

text \<open>
  Line 154 prints the attempts left once at the start of every pass through the loop,
  so the passes of a session are the events of this kind in its output.
\<close>

fun is_attempts_left :: "event \<Rightarrow> bool" where
  "is_attempts_left (Attempts_left k) = True"
| "is_attempts_left ev = False"

subsection \<open>play_game\<close>

text \<open>\<^verbatim>\<open>input("Press Enter to continue...")\<close>: the line read is dropped.\<close>

definition press_enter :: "string llist \<Rightarrow> string llist \<times> (error + unit)" where
  "press_enter stdin =
     (case stdin of LNil \<Rightarrow> (LNil, Inl EOFError) | LCons line rest \<Rightarrow> (rest, Inr ()))"

text \<open>
  The end of \<^verbatim>\<open>play_game\<close> (lines 172 to 186), once the loop has left the session
  \<open>s\<close>: the loss message, or the record of the win handed to \<^verbatim>\<open>save_high_score\<close>;
  then the wait for Enter. The date is \<open>today\<close>, the write behaves as \<open>w\<close>.
\<close>

definition finish_game ::
  "string \<Rightarrow> write_outcome \<Rightarrow> string \<Rightarrow> string \<Rightarrow> int \<Rightarrow> session \<Rightarrow> string llist
     \<Rightarrow> file_state \<Rightarrow> event list \<times> string llist \<times> file_state \<times> (error + unit)" where
  "finish_game today w player_name difficulty_choice secret_number s stdin file =
     (if \<not> game_won s
      then (case press_enter stdin of
              (stdin', r) \<Rightarrow> ([Game_over secret_number], stdin', file, r))
      else
        (case save_high_score w
                (score_record player_name difficulty_choice (attempts_made s) today) file of
           (out, Inl e) \<Rightarrow> (out, stdin, file, Inl e)
         | (out, Inr file') \<Rightarrow>
             (case press_enter stdin of
                (stdin', r) \<Rightarrow> (out @ [Score_saved], stdin', file', r))))"

text \<open>
  \<^verbatim>\<open>play_game\<close> (lines 131 to 186): the two prompts, the secret number, the loop and
  the end of the game. The result is the output, the input left, the generator, the
  file, and the exception if one left the function.
\<close>

definition play_game ::
  "pylib \<Rightarrow> string \<Rightarrow> write_outcome \<Rightarrow> string llist \<Rightarrow> nat stream \<Rightarrow> file_state
     \<Rightarrow> (event list \<times> string llist \<times> nat stream \<times> file_state \<times> (error + unit)) option" where
  "play_game lib today w stdin rng file =
     (case get_player_name (py_strip lib) stdin of
        (stdin1, Inl e) \<Rightarrow> Some ([], stdin1, rng, file, Inl e)
      | (stdin1, Inr player_name) \<Rightarrow>
          (case get_difficulty_choice (py_lower lib) stdin1 [] of
             None \<Rightarrow> None
           | Some (out1, stdin2, Inl e) \<Rightarrow> Some (out1, stdin2, rng, file, Inl e)
           | Some (out1, stdin2, Inr difficulty_choice) \<Rightarrow>
               (case map_of DIFFICULTIES difficulty_choice of
                  None \<Rightarrow> Some (out1, stdin2, rng, file, Inl KeyError)
                | Some settings \<Rightarrow>
                    (case generate_secret_number difficulty_choice rng of
                       (Inl e, rng1) \<Rightarrow> Some (out1, stdin2, rng1, file, Inl e)
                     | (Inr secret_number, rng1) \<Rightarrow>
                         (case guess_loop (py_int lib) player_name secret_number
                                 (tries settings) (range' settings)
                                 \<lparr>attempts_made = 0, last_guess = None, game_won = False\<rparr>
                                 rng1 stdin2 out1 of
                            None \<Rightarrow> None
                          | Some (out2, stdin3, rng2, Inl e) \<Rightarrow>
                              Some (out2, stdin3, rng2, file, Inl e)
                          | Some (out2, stdin3, rng2, Inr s) \<Rightarrow>
                              (case finish_game today w player_name difficulty_choice
                                      secret_number s stdin3 file of
                                 (out3, stdin4, file', r) \<Rightarrow>
                                   Some (out2 @ out3, stdin4, rng2, file', r)))))))"

subsection \<open>The main menu\<close>

text \<open>
  One row of the leaderboard (line 125). The fields are read and formatted from left
  to right: a missing key raises \<^verbatim>\<open>KeyError\<close>, \<^verbatim>\<open>None\<close> does not take a width
  (\<^verbatim>\<open>TypeError\<close>), and only a string has \<^verbatim>\<open>capitalize\<close>
  (\<^verbatim>\<open>AttributeError\<close>). The event carries the field values; layout and
  capitalisation are not modelled.
\<close>

definition score_row :: "int \<Rightarrow> jitem \<Rightarrow> error + event" where
  "score_row rank score =
     (case subscript score ''name'' of
        Inl e \<Rightarrow> Inl e
      | Inr n \<Rightarrow>
          if n = JNull then Inl TypeError
          else (case subscript score ''difficulty'' of
             Inl e \<Rightarrow> Inl e
           | Inr d \<Rightarrow>
               if \<not> is_str d then Inl AttributeError
               else (case subscript score ''attempts'' of
                  Inl e \<Rightarrow> Inl e
                | Inr a \<Rightarrow>
                    if a = JNull then Inl TypeError
                    else (case subscript score ''date'' of
                       Inl e \<Rightarrow> Inl e
                     | Inr t \<Rightarrow>
                         if t = JNull then Inl TypeError
                         else Inr (Score_row rank n d a t)))))"

fun print_rows :: "int \<Rightarrow> jitem list \<Rightarrow> event list \<times> error option" where
  "print_rows i [] = ([], None)"
| "print_rows i (score # rest) =
     (case score_row (i + 1) score of
        Inl e \<Rightarrow> ([], Some e)
      | Inr ev \<Rightarrow> (case print_rows (i + 1) rest of (evs, r) \<Rightarrow> (ev # evs, r)))"

text \<open>\<^verbatim>\<open>display_leaderboard\<close> (lines 112 to 127).\<close>

definition display_leaderboard ::
  "jitem list \<Rightarrow> string llist \<Rightarrow> event list \<times> string llist \<times> (error + unit)" where
  "display_leaderboard scores stdin =
     (if scores = []
      then (case press_enter stdin of (stdin', r) \<Rightarrow> ([No_scores], stdin', r))
      else (case print_rows 0 (take 10 scores) of
              (evs, Some e) \<Rightarrow> (evs, stdin, Inl e)
            | (evs, None) \<Rightarrow> (case press_enter stdin of (stdin', r) \<Rightarrow> (evs, stdin', r))))"

text \<open>
  One pass through the loop of \<^verbatim>\<open>main_menu\<close> (lines 193 to 211) with the list
  \<open>high_scores\<close> that the menu holds in memory. The last component is the exception,
  or \<open>Inr None\<close> after \<^verbatim>\<open>break\<close>, or \<open>Inr (Some hs)\<close> when the loop goes on with
  \<open>hs\<close> in memory.
\<close>

definition menu_iteration ::
  "pylib \<Rightarrow> string \<Rightarrow> write_outcome \<Rightarrow> jitem list \<Rightarrow> string llist \<Rightarrow> nat stream
     \<Rightarrow> file_state
     \<Rightarrow> (event list \<times> string llist \<times> nat stream \<times> file_state
          \<times> (error + jitem list option)) option" where
  "menu_iteration lib today w high_scores stdin rng file =
     (case stdin of
        LNil \<Rightarrow> Some ([], LNil, rng, file, Inl EOFError)
      | LCons choice rest \<Rightarrow>
          if choice = ''1'' then
            (case play_game lib today w rest rng file of
               None \<Rightarrow> None
             | Some (out, stdin', rng', file', Inl e) \<Rightarrow>
                 Some (out, stdin', rng', file', Inl e)
             | Some (out, stdin', rng', file', Inr u) \<Rightarrow>
                 Some (out, stdin', rng', file', Inr (Some high_scores)))
          else if choice = ''2'' then
            (case display_leaderboard high_scores rest of
               (out, stdin', Inl e) \<Rightarrow> Some (out, stdin', rng, file, Inl e)
             | (out, stdin', Inr u) \<Rightarrow>
                 (case load_high_scores file of
                    (out', Inl e) \<Rightarrow> Some (out @ out', stdin', rng, file, Inl e)
                  | (out', Inr hs) \<Rightarrow> Some (out @ out', stdin', rng, file, Inr (Some hs))))
          else if choice = ''3'' then Some ([Goodbye], rest, rng, file, Inr None)
          else
            (case press_enter rest of
               (stdin', Inl e) \<Rightarrow> Some ([Invalid_menu_choice], stdin', rng, file, Inl e)
             | (stdin', Inr u) \<Rightarrow>
                 Some ([Invalid_menu_choice], stdin', rng, file, Inr (Some high_scores))))"

text \<open>
  A stand-in for \<^verbatim>\<open>int\<close> on plain decimal numerals, for the worked examples: it
  reads a string of ASCII digits and turns down everything else.
\<close>

fun position :: "'a \<Rightarrow> 'a list \<Rightarrow> nat option" where
  "position c [] = None"
| "position c (x # xs) = (if c = x then Some 0 else map_option Suc (position c xs))"

definition digit_value :: "char \<Rightarrow> nat option" where
  "digit_value c = position c ''0123456789''"

fun decimal_from :: "nat \<Rightarrow> string \<Rightarrow> nat option" where
  "decimal_from acc [] = Some acc"
| "decimal_from acc (c # cs) =
     (case digit_value c of None \<Rightarrow> None | Some d \<Rightarrow> decimal_from (10 * acc + d) cs)"

definition decimal_int :: "string \<Rightarrow> int option" where
  "decimal_int line =
     (if line = [] then None else map_option int (decimal_from 0 line))"

section \<open>Leaderboard store: proofs\<close>

lemma attempts_key_well_formed:
  "well_formed x \<Longrightarrow> attempts_key x = Inr (JInt (attempts_of x))"
  by (cases x)
     (auto simp: well_formed_def attempts_of_def attempts_key_def
           split: option.splits jval.splits)

lemma keyed_well_formed:
  "list_all well_formed xs \<Longrightarrow> keyed xs = Inr (map (\<lambda>x. (JInt (attempts_of x), x)) xs)"
  by (induction xs) (simp_all add: attempts_key_well_formed)

lemma insort_key_map:
  "insort_key f (g x) (map g ys) = map g (insort_key (\<lambda>y. f (g y)) x ys)"
  by (induction ys) simp_all

lemma sort_key_map:
  "sort_key f (map g xs) = map g (sort_key (\<lambda>y. f (g y)) xs)"
  by (induction xs) (simp_all add: insort_key_map)

lemma sort_key_short: "length xs \<le> 1 \<Longrightarrow> sort_key f xs = xs"
  by (cases xs) (auto simp: le_Suc_eq)

lemma sorted_by_attempts_well_formed:
  assumes "list_all well_formed xs"
  shows "sorted_by_attempts xs = Inr (sort_key attempts_of xs)"
proof -
  let ?g = "\<lambda>x. (JInt (attempts_of x), x)"
  have k: "keyed xs = Inr (map ?g xs)"
    using assms by (rule keyed_well_formed)
  have n: "list_all (\<lambda>p. is_num (fst p)) (map ?g xs)"
    by (simp add: list_all_iff)
  have s: "map snd (sort_key (\<lambda>p. num_of (fst p)) (map ?g xs)) = sort_key attempts_of xs"
    by (simp add: sort_key_map o_def)
  show ?thesis
  proof (cases "length xs \<le> 1")
    case True
    then show ?thesis
      by (simp add: sorted_by_attempts_def k sort_keyed_def sort_key_short o_def)
  next
    case False
    then show ?thesis
      using n s by (simp add: sorted_by_attempts_def k sort_keyed_def)
  qed
qed

lemma sorted_by_attempts_single:
  "attempts_key x = Inr k \<Longrightarrow> sorted_by_attempts [x] = Inr [x]"
  by (simp add: sorted_by_attempts_def sort_keyed_def)

lemma attempts_list_well_formed:
  "list_all well_formed xs \<Longrightarrow> attempts_list xs = Some (map attempts_of xs)"
  by (induction xs) (auto simp: well_formed_def attempts_of_def split: option.splits)

lemma well_formed_sort_key:
  "list_all well_formed xs \<Longrightarrow> list_all well_formed (sort_key f xs)"
  by (simp add: list_all_iff)

lemma load_store_ok:
  assumes "store_ok fs"
  shows "\<exists>out ys. load_high_scores fs = (out, Inr ys) \<and> list_all well_formed ys
           \<and> sorted (map attempts_of ys)
           \<and> (fs = Absent \<longrightarrow> out = [] \<and> ys = [])
           \<and> (fs = Undecodable \<longrightarrow> out = [Warning_unreadable] \<and> ys = [])
           \<and> (fs \<noteq> Undecodable \<longrightarrow> out = [])"
proof (cases fs)
  case Absent
  then show ?thesis by simp
next
  case Unreadable
  with assms show ?thesis by simp
next
  case Not_text
  with assms show ?thesis by simp
next
  case Undecodable
  then show ?thesis by simp
next
  case (Holds j)
  with assms obtain xs where j: "j = Arr xs" and wf: "list_all well_formed xs"
    by (cases j) auto
  show ?thesis
    using wf by (simp add: Holds j sorted_by_attempts_well_formed well_formed_sort_key)
qed

lemma save_store_ok:
  assumes "store_ok fs" and "well_formed score"
  shows "\<exists>out fs'. save_high_score w score fs = (out, Inr fs') \<and> store_ok fs'"
proof -
  from load_store_ok [OF assms(1)] obtain out ys
    where l: "load_high_scores fs = (out, Inr ys)" and wf: "list_all well_formed ys"
    by blast
  from wf assms(2) have wf': "list_all well_formed (ys @ [score])"
    by simp
  show ?thesis
    using assms(1)
    by (cases w)
       (simp_all add: save_high_score_def l sorted_by_attempts_well_formed [OF wf']
          well_formed_sort_key [OF wf'])
qed

lemma save_all_store_ok:
  "store_ok fs \<Longrightarrow> list_all (\<lambda>p. well_formed (snd p)) saves \<Longrightarrow>
     \<exists>out fs'. save_all saves fs = (out, Inr fs') \<and> store_ok fs'"
proof (induction saves arbitrary: fs)
  case Nil
  then show ?case by simp
next
  case (Cons p saves)
  obtain w score where p: "p = (w, score)" by (cases p)
  from Cons.prems p have wf: "well_formed score" by simp
  from save_store_ok [OF Cons.prems(1) wf] obtain out fs'
    where s: "save_high_score w score fs = (out, Inr fs')" and ok: "store_ok fs'"
    by blast
  from Cons.prems(2) have "list_all (\<lambda>p. well_formed (snd p)) saves" by simp
  from Cons.IH [OF ok this] obtain out' fs''
    where "save_all saves fs' = (out', Inr fs'')" and "store_ok fs''"
    by blast
  then show ?case
    by (simp add: p s)
qed

lemma save_5_3_8:
  "save_all [(Write_ok, score_record n1 d1 5 t1), (Write_ok, score_record n2 d2 3 t2),
             (Write_ok, score_record n3 d3 8 t3)] Absent
   = ([], Inr (Holds (Arr [score_record n2 d2 3 t2, score_record n1 d1 5 t1,
                           score_record n3 d3 8 t3])))"
  by (simp add: save_high_score_def sorted_by_attempts_def sort_keyed_def score_record_def
        attempts_key_def)

lemma load_3_5_8:
  "load_high_scores (Holds (Arr [score_record n2 d2 3 t2, score_record n1 d1 5 t1,
                           score_record n3 d3 8 t3]))
   = ([], Inr [score_record n2 d2 3 t2, score_record n1 d1 5 t1, score_record n3 d3 8 t3])"
  by (simp add: sorted_by_attempts_def sort_keyed_def score_record_def attempts_key_def)

lemma attempts_3_5_8:
  "attempts_list [score_record n2 d2 3 t2, score_record n1 d1 5 t1, score_record n3 d3 8 t3]
   = Some [3, 5, 8]"
  by (simp add: score_record_def)

text \<open>
  Claim C1, amended. Start from a backing file that is absent, or is read as text that
  \<^verbatim>\<open>json.load\<close> rejects with \<^verbatim>\<open>JSONDecodeError\<close>, or holds an array of records
  with an integer \<^verbatim>\<open>attempts\<close>, and call \<^verbatim>\<open>save_high_score\<close> any number of
  times with such records, whatever becomes of each write. Then every call returns,
  and \<^verbatim>\<open>load_high_scores\<close> afterwards returns a sequence in non-decreasing
  order of \<^verbatim>\<open>attempts\<close>. In particular, saving records with attempts 5, 3, 8 in that
  order to an absent file, each write going through, and then loading yields the
  attempts 3, 5, 8.
\<close>

theorem leaderboard_kept_sorted:
  assumes "store_ok fs" and "list_all (\<lambda>p. well_formed (snd p)) saves"
  shows "(\<exists>out fs' out' ys ks.
            save_all saves fs = (out, Inr fs') \<and> load_high_scores fs' = (out', Inr ys)
            \<and> attempts_list ys = Some ks \<and> sorted ks)
         \<and> (\<exists>out fs' out' ys.
            save_all [(Write_ok, score_record n1 d1 5 t1), (Write_ok, score_record n2 d2 3 t2),
                      (Write_ok, score_record n3 d3 8 t3)] Absent = (out, Inr fs')
            \<and> load_high_scores fs' = (out', Inr ys) \<and> attempts_list ys = Some [3, 5, 8])"
proof
  from save_all_store_ok [OF assms] obtain out fs'
    where s: "save_all saves fs = (out, Inr fs')" and ok: "store_ok fs'"
    by blast
  from load_store_ok [OF ok] obtain out' ys
    where l: "load_high_scores fs' = (out', Inr ys)" and wf: "list_all well_formed ys"
      and so: "sorted (map attempts_of ys)"
    by blast
  from s l attempts_list_well_formed [OF wf] so
  show "\<exists>out fs' out' ys ks.
          save_all saves fs = (out, Inr fs') \<and> load_high_scores fs' = (out', Inr ys)
          \<and> attempts_list ys = Some ks \<and> sorted ks"
    by blast
next
  show "\<exists>out fs' out' ys.
          save_all [(Write_ok, score_record n1 d1 5 t1), (Write_ok, score_record n2 d2 3 t2),
                    (Write_ok, score_record n3 d3 8 t3)] Absent = (out, Inr fs')
          \<and> load_high_scores fs' = (out', Inr ys) \<and> attempts_list ys = Some [3, 5, 8]"
    using save_5_3_8 [of n1 d1 t1 n2 d2 t2 n3 d3 t3] load_3_5_8 [of n2 d2 t2 n1 d1 t1 n3 d3 t3]
      attempts_3_5_8 [of n2 d2 t2 n1 d1 t1 n3 d3 t3]
    by blast
qed

text \<open>
  The theorem at a leaderboard of one record and three saves, the second of which
  is refused by the operating system.
\<close>

theorem leaderboard_kept_sorted_witness:
  "store_ok (Holds (Arr [score_record ''Dee'' ''easy'' 4 ''2024-04-30'']))
   \<and> list_all (\<lambda>p. well_formed (snd p))
        [(Write_ok, score_record ''Ann'' ''easy'' 5 ''2024-05-01''),
         (Open_refused, score_record ''Bob'' ''hard'' 3 ''2024-05-02''),
         (Write_ok, score_record ''Cy'' ''medium'' 8 ''2024-05-03'')]
   \<and> (\<exists>out fs' out' ys ks.
         save_all [(Write_ok, score_record ''Ann'' ''easy'' 5 ''2024-05-01''),
                   (Open_refused, score_record ''Bob'' ''hard'' 3 ''2024-05-02''),
                   (Write_ok, score_record ''Cy'' ''medium'' 8 ''2024-05-03'')]
           (Holds (Arr [score_record ''Dee'' ''easy'' 4 ''2024-04-30''])) = (out, Inr fs')
         \<and> load_high_scores fs' = (out', Inr ys) \<and> attempts_list ys = Some ks \<and> sorted ks)"
proof -
  have ok: "store_ok (Holds (Arr [score_record ''Dee'' ''easy'' 4 ''2024-04-30'']))"
    by (simp add: well_formed_def score_record_def)
  have wf: "list_all (\<lambda>p. well_formed (snd p))
        [(Write_ok, score_record ''Ann'' ''easy'' 5 ''2024-05-01''),
         (Open_refused, score_record ''Bob'' ''hard'' 3 ''2024-05-02''),
         (Write_ok, score_record ''Cy'' ''medium'' 8 ''2024-05-03'')]"
    by (simp add: well_formed_def score_record_def)
  from leaderboard_kept_sorted [OF ok wf] ok wf show ?thesis
    by blast
qed

text \<open>
  Claim C1 as stated, from any file state: a file that holds the valid JSON
  \<^verbatim>\<open>[{"name": "Bob"}]\<close> makes the key function raise \<^verbatim>\<open>KeyError\<close>, in the save
  and in the load, so no sequence is returned.
\<close>

theorem leaderboard_sorted_counterexample:
  "save_all [(Write_ok, score_record ''Ann'' ''easy'' 5 ''2024-05-01'')]
     (Holds (Arr [Obj [(''name'', JStr ''Bob'')]])) = ([], Inl KeyError)
   \<and> load_high_scores (Holds (Arr [Obj [(''name'', JStr ''Bob'')]])) = ([], Inl KeyError)"
  by (simp add: save_high_score_def sorted_by_attempts_def attempts_key_def)

text \<open>
  Claim C2, amended. Round trip: when the leaderboard is empty (backing file absent or
  holding an empty array) and the write goes through, saving a record that has an
  \<^verbatim>\<open>attempts\<close> field and then loading yields the one-element sequence of that
  record.
\<close>

theorem save_then_load_round_trip:
  assumes "fs = Absent \<or> fs = Holds (Arr [])" and "attempts_key score = Inr k"
  shows "\<exists>fs'. save_high_score Write_ok score fs = ([], Inr fs')
           \<and> load_high_scores fs' = ([], Inr [score])"
  using assms
  by (auto simp: save_high_score_def sorted_by_attempts_single
        sorted_by_attempts_def [of "[]"] sort_keyed_def)

theorem save_then_load_round_trip_witness:
  "(Absent = Absent \<or> Absent = Holds (Arr []))
   \<and> attempts_key (score_record ''Ann'' ''easy'' 5 ''2024-05-01'') = Inr (JInt 5)
   \<and> (\<exists>fs'. save_high_score Write_ok (score_record ''Ann'' ''easy'' 5 ''2024-05-01'') Absent
               = ([], Inr fs')
         \<and> load_high_scores fs' = ([], Inr [score_record ''Ann'' ''easy'' 5 ''2024-05-01'']))"
proof -
  have k: "attempts_key (score_record ''Ann'' ''easy'' 5 ''2024-05-01'') = Inr (JInt 5)"
    by (simp add: attempts_key_def score_record_def)
  have e: "Absent = Absent \<or> Absent = Holds (Arr [])"
    by simp
  from save_then_load_round_trip [OF e k] k show ?thesis
    by simp
qed

text \<open>
  Claim C2 as stated: with the file absent and \<^verbatim>\<open>open\<close> refused, the save prints
  its error message, the file stays absent and the load returns the empty sequence.
\<close>

theorem round_trip_counterexample:
  "save_high_score Open_refused (score_record ''Ann'' ''easy'' 5 ''2024-05-01'') Absent
     = ([Error_saving], Inr Absent)
   \<and> load_high_scores Absent = ([], Inr [])"
  by (simp add: save_high_score_def sorted_by_attempts_def sort_keyed_def score_record_def
        attempts_key_def)








section \<open>Secret number and hints: proofs\<close>

lemma randint_bounds:
  assumes "a \<le> b"
  shows "\<exists>n. fst (randint a b rng) = Inr n \<and> a \<le> n \<and> n \<le> b"
proof -
  from assms have pos: "0 < nat (b + 1 - a)"
    by simp
  have "shd rng mod nat (b + 1 - a) < nat (b + 1 - a)"
    using pos by (rule mod_less_divisor)
  then have "int (shd rng mod nat (b + 1 - a)) < b + 1 - a"
    by linarith
  then show ?thesis
    using assms by (simp add: randint_def randbelow_def)
qed

text \<open>
  Claim C9. For every difficulty among easy, medium and hard and every state of the
  random generator, \<^verbatim>\<open>generate_secret_number\<close> returns an integer between 1 and the
  number range configured for that difficulty, both included.
\<close>

theorem generate_secret_number_in_range:
  assumes "difficulty_level \<in> {''easy'', ''medium'', ''hard''}"
  shows "\<exists>s n. map_of DIFFICULTIES difficulty_level = Some s
           \<and> fst (generate_secret_number difficulty_level rng) = Inr n
           \<and> 1 \<le> n \<and> n \<le> range' s"
proof -
  from assms obtain s where s: "map_of DIFFICULTIES difficulty_level = Some s"
    and r: "range' s = 100"
    by (auto simp: DIFFICULTIES_def)
  from randint_bounds [of 1 "range' s" rng] r
  obtain n where "fst (randint 1 (range' s) rng) = Inr n" and "1 \<le> n" and "n \<le> range' s"
    by auto
  with s show ?thesis
    by (simp add: generate_secret_number_def)
qed

text \<open>The theorem at the difficulty hard, with a generator whose draws are all 249.\<close>

theorem generate_secret_number_in_range_witness:
  "''hard'' \<in> {''easy'', ''medium'', ''hard''}
   \<and> fst (generate_secret_number ''hard'' (sconst 249)) = Inr 50"
proof -
  have d: "''hard'' \<in> {''easy'', ''medium'', ''hard''}"
    by simp
  from generate_secret_number_in_range [OF d, of "sconst 249"] d show ?thesis
    by (simp add: generate_secret_number_def DIFFICULTIES_def randint_def randbelow_def)
qed

lemma kind_even:
  "is_parity_hint hint_even" "\<not> is_divisibility_hint hint_even" "\<not> is_proximity_hint hint_even"
  by (simp_all add: hint_even_def is_parity_hint_def is_divisibility_hint_def
        is_proximity_hint_def)

lemma kind_odd:
  "is_parity_hint hint_odd" "\<not> is_divisibility_hint hint_odd" "\<not> is_proximity_hint hint_odd"
  by (simp_all add: hint_odd_def is_parity_hint_def is_divisibility_hint_def
        is_proximity_hint_def)

lemma kind_divisible:
  "\<not> is_parity_hint (hint_divisible d)" "is_divisibility_hint (hint_divisible d)"
  "\<not> is_proximity_hint (hint_divisible d)"
  by (simp_all add: hint_divisible_def is_parity_hint_def is_divisibility_hint_def
        is_proximity_hint_def)

lemma kind_greater:
  "\<not> is_parity_hint (hint_greater g)" "\<not> is_divisibility_hint (hint_greater g)"
  "is_proximity_hint (hint_greater g)"
  by (simp_all add: hint_greater_def is_parity_hint_def is_divisibility_hint_def
        is_proximity_hint_def)

lemma kind_less:
  "\<not> is_parity_hint (hint_less g)" "\<not> is_divisibility_hint (hint_less g)"
  "is_proximity_hint (hint_less g)"
  by (simp_all add: hint_less_def is_parity_hint_def is_divisibility_hint_def
        is_proximity_hint_def)

lemmas kind_simps = kind_even kind_odd kind_divisible kind_greater kind_less

lemma hint_divisible_3_5_7:
  "hint_divisible 3 = ''It is divisible by 3.''"
  "hint_divisible 5 = ''It is divisible by 5.''"
  "hint_divisible 7 = ''It is divisible by 7.''"
  by (simp_all add: hint_divisible_def str_int_def digit_char_def)

lemma hint_candidates_named:
  "hint_candidates secret_number prev_guess =
     (if secret_number mod 2 = 0 then [hint_even] else [hint_odd])
     @ (if secret_number > 10 then
          (if secret_number mod 3 = 0 then [hint_divisible 3]
           else if secret_number mod 5 = 0 then [hint_divisible 5]
           else if secret_number mod 7 = 0 then [hint_divisible 7]
           else [])
        else [])
     @ (case prev_guess of
          None \<Rightarrow> []
        | Some g \<Rightarrow>
            if g < secret_number then [hint_greater g]
            else if g > secret_number then [hint_less g]
            else [])"
  by (simp only: hint_candidates_def hint_even_def hint_odd_def hint_divisible_3_5_7
        hint_greater_def hint_less_def)

lemma parity_hints:
  "filter is_parity_hint (hint_candidates secret_number prev_guess)
     = [if secret_number mod 2 = 0 then hint_even else hint_odd]"
  by (simp add: hint_candidates_named kind_simps split: option.split)

lemma divisibility_hints:
  "filter is_divisibility_hint (hint_candidates secret_number prev_guess)
     = (if secret_number > 10
        then (case find (\<lambda>d. secret_number mod d = 0) [3, 5, 7] of
                None \<Rightarrow> []
              | Some d \<Rightarrow> [hint_divisible d])
        else [])"
  by (simp add: hint_candidates_named kind_simps split: option.split)

lemma proximity_hints:
  "filter is_proximity_hint (hint_candidates secret_number prev_guess)
     = (case prev_guess of
          None \<Rightarrow> []
        | Some g \<Rightarrow>
            if g < secret_number then [hint_greater g]
            else if secret_number < g then [hint_less g]
            else [])"
  by (simp add: hint_candidates_named kind_simps split: option.split)

lemma hints_of_three_kinds:
  "list_all (\<lambda>h. is_parity_hint h \<or> is_divisibility_hint h \<or> is_proximity_hint h)
     (hint_candidates secret_number prev_guess)"
  by (simp add: hint_candidates_named kind_simps split: option.split)

lemma candidates_12_5:
  "hint_candidates 12 (Some 5) = [hint_even, hint_divisible 3, hint_greater 5]"
  by (simp add: hint_candidates_named)

lemma hint_greater_5: "hint_greater 5 = ''It's greater than 5.''"
  by (simp add: hint_greater_def str_int_def digit_char_def)

text \<open>
  Claim C5. The candidate list of \<^verbatim>\<open>generate_hint\<close>, for every secret number and
  optional last guess, holds exactly one parity hint, the one that matches the secret;
  a divisibility hint only when the secret is above 10, and then for the first of 3, 5,
  7 that divides it and no other; a proximity hint exactly when a last guess is given and
  differs from the secret, "greater than" when the guess is below the secret and "less
  than" when it is above; and nothing else. For the secret 12 and the last guess 5 the
  list is the even hint, the divisible by 3 hint and the greater than 5 hint.
\<close>

theorem generate_hint_candidates:
  "filter is_parity_hint (hint_candidates secret_number prev_guess)
     = [if secret_number mod 2 = 0 then ''The number is even.'' else ''The number is odd.'']
   \<and> filter is_divisibility_hint (hint_candidates secret_number prev_guess)
     = (if secret_number > 10
        then (case find (\<lambda>d. secret_number mod d = 0) [3, 5, 7] of
                None \<Rightarrow> []
              | Some d \<Rightarrow> [''It is divisible by '' @ str_int d @ ''.''])
        else [])
   \<and> filter is_proximity_hint (hint_candidates secret_number prev_guess)
     = (case prev_guess of
          None \<Rightarrow> []
        | Some g \<Rightarrow>
            if g < secret_number then [''It's greater than '' @ str_int g @ ''.'']
            else if secret_number < g then [''It's less than '' @ str_int g @ ''.'']
            else [])
   \<and> list_all (\<lambda>h. is_parity_hint h \<or> is_divisibility_hint h \<or> is_proximity_hint h)
        (hint_candidates secret_number prev_guess)
   \<and> hint_candidates 12 (Some 5)
     = [''The number is even.'', ''It is divisible by 3.'', ''It's greater than 5.'']"
proof -
  have 1: "filter is_parity_hint (hint_candidates secret_number prev_guess)
     = [if secret_number mod 2 = 0 then ''The number is even.'' else ''The number is odd.'']"
    using parity_hints [of secret_number prev_guess]
    by (simp only: hint_even_def hint_odd_def)
  have 2: "filter is_divisibility_hint (hint_candidates secret_number prev_guess)
     = (if secret_number > 10
        then (case find (\<lambda>d. secret_number mod d = 0) [3, 5, 7] of
                None \<Rightarrow> []
              | Some d \<Rightarrow> [''It is divisible by '' @ str_int d @ ''.''])
        else [])"
    using divisibility_hints [of secret_number prev_guess]
    by (simp only: hint_divisible_def)
  have 3: "filter is_proximity_hint (hint_candidates secret_number prev_guess)
     = (case prev_guess of
          None \<Rightarrow> []
        | Some g \<Rightarrow>
            if g < secret_number then [''It's greater than '' @ str_int g @ ''.'']
            else if secret_number < g then [''It's less than '' @ str_int g @ ''.'']
            else [])"
    using proximity_hints [of secret_number prev_guess]
    by (simp only: hint_greater_def hint_less_def)
  have 4: "hint_candidates 12 (Some 5)
     = [''The number is even.'', ''It is divisible by 3.'', ''It's greater than 5.'']"
    by (simp only: candidates_12_5 hint_even_def hint_divisible_3_5_7 hint_greater_5)
  from 1 2 3 4 hints_of_three_kinds [of secret_number prev_guess] show ?thesis
    by (intro conjI)
qed

text \<open>The theorem at the secret 12 with last guess 5, and at the secret 35 with none.\<close>

theorem generate_hint_candidates_witness:
  "filter is_parity_hint (hint_candidates 12 (Some 5)) = [''The number is even.'']
   \<and> filter is_divisibility_hint (hint_candidates 12 (Some 5)) = [''It is divisible by 3.'']
   \<and> filter is_proximity_hint (hint_candidates 12 (Some 5)) = [''It's greater than 5.'']
   \<and> filter is_parity_hint (hint_candidates 35 None) = [''The number is odd.'']
   \<and> filter is_divisibility_hint (hint_candidates 35 None) = [''It is divisible by 5.'']
   \<and> filter is_proximity_hint (hint_candidates 35 None) = []"
  using generate_hint_candidates [of 12 "Some 5"] generate_hint_candidates [of 35 None]
  by (simp add: str_int_def digit_char_def)

lemma hint_condition:
  "(3 \<le> a \<and> (a = 3 \<or> (3 < a \<and> a mod 2 = 1))) \<longleftrightarrow> (3 \<le> a \<and> odd a)" for a :: int
  by presburger

text \<open>
  Claim C4. A pass through the guessing loop prints a hint exactly when the guess is
  wrong, the round has not been won, and the attempt count after the guess is 3 or a
  larger odd number: never at an even count, nor at 1 or 2, nor after the right guess.
\<close>

theorem hint_cadence:
  "(\<exists>h. Hint h \<in> set (fst (guess_round player_name secret_number s guess rng)))
   \<longleftrightarrow> (guess \<noteq> secret_number \<and> \<not> game_won s
        \<and> 3 \<le> attempts_made s + 1 \<and> odd (attempts_made s + 1))"
proof (cases "3 \<le> attempts_made s + 1 \<and> odd (attempts_made s + 1)")
  case True
  with hint_condition [of "attempts_made s + 1"]
  have "attempts_made s + 1 = 3 \<or> (3 < attempts_made s + 1 \<and> (attempts_made s + 1) mod 2 = 1)"
    by blast
  with True show ?thesis
    by (auto simp: guess_round_def Let_def split: prod.splits)
next
  case False
  with hint_condition [of "attempts_made s + 1"]
  have "\<not> (3 \<le> attempts_made s + 1
            \<and> (attempts_made s + 1 = 3
                  \<or> (3 < attempts_made s + 1 \<and> (attempts_made s + 1) mod 2 = 1)))"
    by blast
  with False show ?thesis
    by (auto simp: guess_round_def Let_def split: prod.splits)
qed

text \<open>The theorem at the third attempt (a hint) and at the fourth (none).\<close>

theorem hint_cadence_witness:
  "(\<exists>h. Hint h \<in> set (fst (guess_round ''Ann'' 50
           \<lparr>attempts_made = 2, last_guess = Some 90, game_won = False\<rparr> 10 (sconst 0))))
   \<and> \<not> (\<exists>h. Hint h \<in> set (fst (guess_round ''Ann'' 50
           \<lparr>attempts_made = 3, last_guess = Some 10, game_won = False\<rparr> 90 (sconst 0))))"
  using hint_cadence [of "''Ann''" 50
      "\<lparr>attempts_made = 2, last_guess = Some 90, game_won = False\<rparr>" 10 "sconst 0"]
    hint_cadence [of "''Ann''" 50
      "\<lparr>attempts_made = 3, last_guess = Some 10, game_won = False\<rparr>" 90 "sconst 0"]
  by simp

section \<open>Console input and the guessing loop: proofs\<close>

lemma get_user_guess_LNil:
  "get_user_guess to_int max_range LNil out
     = Some (out @ [Prompt_guess max_range], LNil, Inl EOFError)"
  by (subst get_user_guess.simps) simp

lemma get_user_guess_rejected:
  "rejected to_int max_range line \<Longrightarrow>
     get_user_guess to_int max_range (LCons line rest) out
       = get_user_guess to_int max_range rest (out @ reprompt to_int max_range line)"
  by (subst get_user_guess.simps)
     (auto simp: rejected_def reprompt_def split: option.splits)

lemma get_user_guess_accepted:
  "to_int line = Some guess \<Longrightarrow> 1 \<le> guess \<Longrightarrow> guess \<le> max_range \<Longrightarrow>
     get_user_guess to_int max_range (LCons line rest) out
       = Some (out @ [Prompt_guess max_range], rest, Inr guess)"
  by (subst get_user_guess.simps) simp

lemma get_user_guess_prepend:
  "list_all (rejected to_int max_range) rs \<Longrightarrow>
     get_user_guess to_int max_range (prepend rs rest) out
       = get_user_guess to_int max_range rest
           (out @ concat (map (reprompt to_int max_range) rs))"
  by (induction rs arbitrary: out) (simp_all add: get_user_guess_rejected)

lemma get_user_guess_returns:
  assumes "get_user_guess to_int max_range stdin out = Some y"
  shows "\<forall>out' stdin' guess. y = (out', stdin', Inr guess) \<longrightarrow>
           (\<exists>rs line. stdin = prepend rs (LCons line stdin')
              \<and> list_all (rejected to_int max_range) rs
              \<and> to_int line = Some guess \<and> 1 \<le> guess \<and> guess \<le> max_range
              \<and> out' = out @ concat (map (reprompt to_int max_range) rs)
                          @ [Prompt_guess max_range])"
proof (rule get_user_guess.raw_induct [OF _ assms], goal_cases)
  case (1 get_user_guess to_int max_range stdin out y)
  show ?case
  proof (cases stdin)
    case LNil
    with 1(2) show ?thesis by auto
  next
    case (LCons line rest)
    show ?thesis
    proof (cases "rejected to_int max_range line")
      case True
      with 1(2) LCons
      have r: "get_user_guess to_int max_range rest (out @ reprompt to_int max_range line)
                 = Some y"
        by (auto simp: rejected_def reprompt_def split: option.splits if_splits)
      show ?thesis
      proof (intro allI impI)
        fix out' stdin' guess
        assume y: "y = (out', stdin', Inr guess)"
        from 1(1) [OF r] y obtain rs l where
          "rest = prepend rs (LCons l stdin')" "list_all (rejected to_int max_range) rs"
          "to_int l = Some guess" "1 \<le> guess" "guess \<le> max_range"
          "out' = (out @ reprompt to_int max_range line)
                    @ concat (map (reprompt to_int max_range) rs) @ [Prompt_guess max_range]"
          by blast
        with True LCons
        have "stdin = prepend (line # rs) (LCons l stdin')
              \<and> list_all (rejected to_int max_range) (line # rs)
              \<and> to_int l = Some guess \<and> 1 \<le> guess \<and> guess \<le> max_range
              \<and> out' = out @ concat (map (reprompt to_int max_range) (line # rs))
                          @ [Prompt_guess max_range]"
          by simp
        then show "\<exists>rs line. stdin = prepend rs (LCons line stdin')
              \<and> list_all (rejected to_int max_range) rs
              \<and> to_int line = Some guess \<and> 1 \<le> guess \<and> guess \<le> max_range
              \<and> out' = out @ concat (map (reprompt to_int max_range) rs)
                          @ [Prompt_guess max_range]"
          by blast
      qed
    next
      case False
      then obtain g where g: "to_int line = Some g" "1 \<le> g" "g \<le> max_range"
        by (auto simp: rejected_def split: option.splits)
      with 1(2) LCons have y: "y = (out @ [Prompt_guess max_range], rest, Inr g)"
        by simp
      show ?thesis
      proof (intro allI impI)
        fix out' stdin' guess
        assume "y = (out', stdin', Inr guess)"
        with y g LCons
        have "stdin = prepend [] (LCons line stdin')
              \<and> list_all (rejected to_int max_range) []
              \<and> to_int line = Some guess \<and> 1 \<le> guess \<and> guess \<le> max_range
              \<and> out' = out @ concat (map (reprompt to_int max_range) [])
                          @ [Prompt_guess max_range]"
          by simp
        then show "\<exists>rs line. stdin = prepend rs (LCons line stdin')
              \<and> list_all (rejected to_int max_range) rs
              \<and> to_int line = Some guess \<and> 1 \<le> guess \<and> guess \<le> max_range
              \<and> out' = out @ concat (map (reprompt to_int max_range) rs)
                          @ [Prompt_guess max_range]"
          by blast
      qed
    qed
  qed
qed

lemma guess_round_attempts:
  "attempts_made (fst (snd (snd (guess_round player_name secret_number s guess rng))))
     = attempts_made s + 1"
  by (simp add: guess_round_def Let_def split: prod.split)

lemma guess_round_no_attempts_left:
  "filter is_attempts_left (fst (guess_round player_name secret_number s guess rng)) = []"
  by (simp add: guess_round_def Let_def split: prod.split)

lemma guess_loop_step:
  assumes "attempts_made s < max_attempts"
    and "list_all (rejected to_int max_range) rs"
    and "to_int line = Some guess" and "1 \<le> guess" and "guess \<le> max_range"
  shows "guess_loop to_int player_name secret_number max_attempts max_range s rng
           (prepend rs (LCons line rest)) out
         = (case guess_round player_name secret_number s guess rng of
              (evs, rng1, s1, stop) \<Rightarrow>
                if stop
                then Some (out @ [Attempts_left (max_attempts - attempts_made s)]
                             @ concat (map (reprompt to_int max_range) rs)
                             @ [Prompt_guess max_range] @ evs, rest, rng1, Inr s1)
                else guess_loop to_int player_name secret_number max_attempts max_range
                       s1 rng1 rest
                       (out @ [Attempts_left (max_attempts - attempts_made s)]
                          @ concat (map (reprompt to_int max_range) rs)
                          @ [Prompt_guess max_range] @ evs))"
proof -
  have "get_user_guess to_int max_range (prepend rs (LCons line rest))
          (out @ [Attempts_left (max_attempts - attempts_made s)])
        = Some ((out @ [Attempts_left (max_attempts - attempts_made s)])
                  @ concat (map (reprompt to_int max_range) rs) @ [Prompt_guess max_range],
                rest, Inr guess)"
    using assms(2-5) by (simp add: get_user_guess_prepend get_user_guess_accepted)
  then show ?thesis
    using assms(1)
    by (subst guess_loop.simps) (simp split: prod.split)
qed

text \<open>
  Claim C8. For every input, \<^verbatim>\<open>get_user_guess\<close> returns a guess exactly when the
  input starts with a finite run of rejected lines (not an integer, or outside 1 to
  \<open>max_range\<close>) followed by an accepted line: it returns the integer of that line,
  leaves the input after it, and has printed a prompt and a complaint for every rejected
  line. In the guessing loop such a run of rejected lines and the accepted guess after
  them make one pass, in which the attempt counter goes up by exactly one.
\<close>

theorem get_user_guess_validates:
  "(get_user_guess to_int max_range stdin out = Some (out', stdin', Inr guess)
      \<longleftrightarrow> (\<exists>rs line. stdin = prepend rs (LCons line stdin')
             \<and> list_all (rejected to_int max_range) rs
             \<and> to_int line = Some guess \<and> 1 \<le> guess \<and> guess \<le> max_range
             \<and> out' = out @ concat (map (reprompt to_int max_range) rs)
                         @ [Prompt_guess max_range]))
   \<and> (attempts_made s < max_attempts \<and> list_all (rejected to_int max_range) rs
        \<and> to_int line = Some g \<and> 1 \<le> g \<and> g \<le> max_range
      \<longrightarrow> guess_loop to_int player_name secret_number max_attempts max_range s rng
            (prepend rs (LCons line rest)) out
          = (case guess_round player_name secret_number s g rng of
               (evs, rng1, s1, stop) \<Rightarrow>
                 if stop
                 then Some (out @ [Attempts_left (max_attempts - attempts_made s)]
                              @ concat (map (reprompt to_int max_range) rs)
                              @ [Prompt_guess max_range] @ evs, rest, rng1, Inr s1)
                 else guess_loop to_int player_name secret_number max_attempts max_range
                        s1 rng1 rest
                        (out @ [Attempts_left (max_attempts - attempts_made s)]
                           @ concat (map (reprompt to_int max_range) rs)
                           @ [Prompt_guess max_range] @ evs))
        \<and> attempts_made (fst (snd (snd (guess_round player_name secret_number s g rng))))
            = attempts_made s + 1)"
proof (intro conjI impI iffI)
  assume "get_user_guess to_int max_range stdin out = Some (out', stdin', Inr guess)"
  from get_user_guess_returns [OF this]
  show "\<exists>rs line. stdin = prepend rs (LCons line stdin')
          \<and> list_all (rejected to_int max_range) rs
          \<and> to_int line = Some guess \<and> 1 \<le> guess \<and> guess \<le> max_range
          \<and> out' = out @ concat (map (reprompt to_int max_range) rs)
                      @ [Prompt_guess max_range]"
    by blast
next
  assume "\<exists>rs line. stdin = prepend rs (LCons line stdin')
          \<and> list_all (rejected to_int max_range) rs
          \<and> to_int line = Some guess \<and> 1 \<le> guess \<and> guess \<le> max_range
          \<and> out' = out @ concat (map (reprompt to_int max_range) rs)
                      @ [Prompt_guess max_range]"
  then show "get_user_guess to_int max_range stdin out = Some (out', stdin', Inr guess)"
    by (auto simp: get_user_guess_prepend get_user_guess_accepted)
next
  assume "attempts_made s < max_attempts \<and> list_all (rejected to_int max_range) rs
        \<and> to_int line = Some g \<and> 1 \<le> g \<and> g \<le> max_range"
  then show "guess_loop to_int player_name secret_number max_attempts max_range s rng
            (prepend rs (LCons line rest)) out
          = (case guess_round player_name secret_number s g rng of
               (evs, rng1, s1, stop) \<Rightarrow>
                 if stop
                 then Some (out @ [Attempts_left (max_attempts - attempts_made s)]
                              @ concat (map (reprompt to_int max_range) rs)
                              @ [Prompt_guess max_range] @ evs, rest, rng1, Inr s1)
                 else guess_loop to_int player_name secret_number max_attempts max_range
                        s1 rng1 rest
                        (out @ [Attempts_left (max_attempts - attempts_made s)]
                           @ concat (map (reprompt to_int max_range) rs)
                           @ [Prompt_guess max_range] @ evs))"
    by (intro guess_loop_step) simp_all
next
  show "attempts_made (fst (snd (snd (guess_round player_name secret_number s g rng))))
            = attempts_made s + 1"
    by (rule guess_round_attempts)
qed

lemma decimal_int_examples:
  "decimal_int ''abc'' = None" "decimal_int ''0'' = Some 0" "decimal_int ''101'' = Some 101"
  "decimal_int ''50'' = Some 50" "decimal_int ''7'' = Some 7" "decimal_int [] = None"
  "decimal_int ''10'' = Some 10" "decimal_int ''90'' = Some 90"
  by (simp_all add: decimal_int_def digit_value_def)

text \<open>
  The theorem on the input abc, 0, 101, 50 with a range of 100 and the secret 50: three
  rejected lines, then the guess that wins at the first attempt.
\<close>

theorem get_user_guess_validates_witness:
  "attempts_made \<lparr>attempts_made = 0, last_guess = None, game_won = False\<rparr> < 10
   \<and> list_all (rejected decimal_int 100) [''abc'', ''0'', ''101'']
   \<and> decimal_int ''50'' = Some 50 \<and> (1::int) \<le> 50 \<and> (50::int) \<le> 100
   \<and> get_user_guess decimal_int 100 (prepend [''abc'', ''0'', ''101''] (LCons ''50'' LNil)) []
       = Some ([Prompt_guess 100, Invalid_input, Prompt_guess 100, Out_of_range 100,
                Prompt_guess 100, Out_of_range 100, Prompt_guess 100], LNil, Inr 50)
   \<and> guess_loop decimal_int ''Ann'' 50 10 100
        \<lparr>attempts_made = 0, last_guess = None, game_won = False\<rparr> (sconst 0)
        (prepend [''abc'', ''0'', ''101''] (LCons ''50'' LNil)) []
       = Some ([Attempts_left 10, Prompt_guess 100, Invalid_input, Prompt_guess 100,
                Out_of_range 100, Prompt_guess 100, Out_of_range 100, Prompt_guess 100,
                Congratulations ''Ann'' 50 1], LNil, sconst 0,
               Inr \<lparr>attempts_made = 1, last_guess = Some 50, game_won = True\<rparr>)"
proof -
  have a: "attempts_made \<lparr>attempts_made = 0, last_guess = None, game_won = False\<rparr> < 10"
    by simp
  have r: "list_all (rejected decimal_int 100) [''abc'', ''0'', ''101'']"
    by (simp add: rejected_def decimal_int_examples)
  have l: "decimal_int ''50'' = Some 50"
    by (rule decimal_int_examples)
  note t = get_user_guess_validates
    [where to_int = decimal_int and max_range = 100
       and stdin = "prepend [''abc'', ''0'', ''101''] (LCons ''50'' LNil)" and out = "[]"
       and out' = "[Prompt_guess 100, Invalid_input, Prompt_guess 100, Out_of_range 100,
          Prompt_guess 100, Out_of_range 100, Prompt_guess 100]"
       and stdin' = LNil and guess = 50
       and s = "\<lparr>attempts_made = 0, last_guess = None, game_won = False\<rparr>"
       and max_attempts = 10 and rs = "[''abc'', ''0'', ''101'']" and line = "''50''"
       and g = 50 and player_name = "''Ann''" and secret_number = 50 and rng = "sconst 0"
       and rest = LNil]
  have "\<exists>rs line. prepend [''abc'', ''0'', ''101''] (LCons ''50'' LNil)
            = prepend rs (LCons line LNil)
          \<and> list_all (rejected decimal_int 100) rs
          \<and> decimal_int line = Some 50 \<and> (1::int) \<le> 50 \<and> (50::int) \<le> 100
          \<and> [Prompt_guess 100, Invalid_input, Prompt_guess 100, Out_of_range 100,
              Prompt_guess 100, Out_of_range 100, Prompt_guess 100]
            = [] @ concat (map (reprompt decimal_int 100) rs) @ [Prompt_guess 100]"
    using r l
    by (intro exI [of _ "[''abc'', ''0'', ''101'']"] exI [of _ "''50''"])
       (simp add: reprompt_def decimal_int_examples)
  with t have g: "get_user_guess decimal_int 100
        (prepend [''abc'', ''0'', ''101''] (LCons ''50'' LNil)) []
       = Some ([Prompt_guess 100, Invalid_input, Prompt_guess 100, Out_of_range 100,
                Prompt_guess 100, Out_of_range 100, Prompt_guess 100], LNil, Inr 50)"
    by blast
  from t a r l have "guess_loop decimal_int ''Ann'' 50 10 100
        \<lparr>attempts_made = 0, last_guess = None, game_won = False\<rparr> (sconst 0)
        (prepend [''abc'', ''0'', ''101''] (LCons ''50'' LNil)) []
       = Some ([Attempts_left 10, Prompt_guess 100, Invalid_input, Prompt_guess 100,
                Out_of_range 100, Prompt_guess 100, Out_of_range 100, Prompt_guess 100,
                Congratulations ''Ann'' 50 1], LNil, sconst 0,
               Inr \<lparr>attempts_made = 1, last_guess = Some 50, game_won = True\<rparr>)"
    by (simp add: reprompt_def decimal_int_examples guess_round_def)
  with g a r l show ?thesis
    by simp
qed

lemma guess_round_no_attempts_left_event:
  "Attempts_left k \<notin> set (fst (guess_round player_name secret_number s guess rng))"
  by (simp add: guess_round_def Let_def split: prod.split)

lemma guess_loop_bounded:
  assumes "\<forall>line \<in> lset stdin. \<not> rejected to_int max_range line"
    and "attempts_made s \<le> max_attempts"
  shows "\<exists>evs stdin' rng' r.
           guess_loop to_int player_name secret_number max_attempts max_range s rng stdin out
             = Some (out @ evs, stdin', rng', r)
           \<and> int (length (filter is_attempts_left evs)) \<le> max_attempts - attempts_made s
           \<and> (\<forall>k. Attempts_left k \<in> set evs \<longrightarrow> 1 \<le> k \<and> k \<le> max_attempts - attempts_made s)
           \<and> (\<forall>s'. r = Inr s' \<longrightarrow>
                 attempts_made s \<le> attempts_made s' \<and> attempts_made s' \<le> max_attempts)"
  using assms
proof (induction "nat (max_attempts - attempts_made s)" arbitrary: s rng stdin out)
  case 0
  then have "\<not> attempts_made s < max_attempts"
    by simp
  then have "guess_loop to_int player_name secret_number max_attempts max_range s rng stdin out
               = Some (out @ [], stdin, rng, Inr s)"
    by (subst guess_loop.simps) simp
  with 0 show ?case
    by (intro exI [of _ "[]"] exI [of _ stdin] exI [of _ rng] exI [of _ "Inr s"]) simp
next
  case (Suc n)
  then have lt: "attempts_made s < max_attempts"
    by linarith
  let ?al = "Attempts_left (max_attempts - attempts_made s)"
  show ?case
  proof (cases stdin)
    case LNil
    have "guess_loop to_int player_name secret_number max_attempts max_range s rng stdin out
            = Some (out @ [?al, Prompt_guess max_range], LNil, rng, Inl EOFError)"
      using lt LNil by (subst guess_loop.simps) (simp add: get_user_guess_LNil)
    with lt show ?thesis
      by (intro exI [of _ "[?al, Prompt_guess max_range]"] exI [of _ LNil] exI [of _ rng]
            exI [of _ "Inl EOFError"]) simp
  next
    case (LCons line rest)
    with Suc.prems(1) have "\<not> rejected to_int max_range line"
      by simp
    then obtain g where g: "to_int line = Some g" "1 \<le> g" "g \<le> max_range"
      by (auto simp: rejected_def split: option.splits)
    obtain evs rng1 s1 stop
      where gr: "guess_round player_name secret_number s g rng = (evs, rng1, s1, stop)"
      by (cases "guess_round player_name secret_number s g rng")
    from guess_round_attempts [of player_name secret_number s g rng] gr
    have a1: "attempts_made s1 = attempts_made s + 1"
      by simp
    from guess_round_no_attempts_left [of player_name secret_number s g rng] gr
    have f1: "filter is_attempts_left evs = []"
      by simp
    from guess_round_no_attempts_left_event [of _ player_name secret_number s g rng] gr
    have n1: "\<And>k. Attempts_left k \<notin> set evs"
      by simp
    let ?out1 = "out @ [?al, Prompt_guess max_range] @ evs"
    have "list_all (rejected to_int max_range) []"
      by simp
    from guess_loop_step [OF lt this g, of player_name secret_number rng rest out] gr LCons
    have step: "guess_loop to_int player_name secret_number max_attempts max_range s rng stdin
                  out
                = (if stop then Some (?out1, rest, rng1, Inr s1)
                   else guess_loop to_int player_name secret_number max_attempts max_range
                          s1 rng1 rest ?out1)"
      by simp
    show ?thesis
    proof (cases stop)
      case True
      with step lt a1 f1 n1 show ?thesis
        by (intro exI [of _ "[?al, Prompt_guess max_range] @ evs"] exI [of _ rest]
              exI [of _ rng1] exI [of _ "Inr s1"]) auto
    next
      case False
      from Suc.hyps(2) a1 have m: "n = nat (max_attempts - attempts_made s1)"
        by linarith
      from Suc.prems(1) LCons have v: "\<forall>line \<in> lset rest. \<not> rejected to_int max_range line"
        by simp
      from lt a1 have le: "attempts_made s1 \<le> max_attempts"
        by simp
      from Suc.hyps(1) [OF m v le, of rng1 ?out1] obtain evs' stdin' rng' r
        where l: "guess_loop to_int player_name secret_number max_attempts max_range s1 rng1
                    rest ?out1 = Some (?out1 @ evs', stdin', rng', r)"
          and c: "int (length (filter is_attempts_left evs')) \<le> max_attempts - attempts_made s1"
          and k: "\<forall>k. Attempts_left k \<in> set evs' \<longrightarrow>
                        1 \<le> k \<and> k \<le> max_attempts - attempts_made s1"
          and b: "\<forall>s'. r = Inr s' \<longrightarrow>
                        attempts_made s1 \<le> attempts_made s' \<and> attempts_made s' \<le> max_attempts"
        by blast
      from step False l
      have "guess_loop to_int player_name secret_number max_attempts max_range s rng stdin out
              = Some (out @ ([?al, Prompt_guess max_range] @ evs @ evs'), stdin', rng', r)"
        by simp
      moreover from c a1 f1
      have "int (length (filter is_attempts_left ([?al, Prompt_guess max_range] @ evs @ evs')))
              \<le> max_attempts - attempts_made s"
        by simp
      moreover from k a1 n1 lt
      have "\<forall>k. Attempts_left k \<in> set ([?al, Prompt_guess max_range] @ evs @ evs') \<longrightarrow>
                  1 \<le> k \<and> k \<le> max_attempts - attempts_made s"
        by auto
      moreover from b a1
      have "\<forall>s'. r = Inr s' \<longrightarrow>
                  attempts_made s \<le> attempts_made s' \<and> attempts_made s' \<le> max_attempts"
        by auto
      ultimately show ?thesis
        by blast
    qed
  qed
qed

text \<open>
  Claim C6. With \<open>max_attempts > 0\<close> and an input, finite or infinite, whose lines are
  all valid guesses, the guessing loop returns; it makes at most \<open>max_attempts\<close>
  passes; at the start of every pass at least one attempt is left, so the counter is
  below \<open>max_attempts\<close> before it is incremented; and the counter of the session the
  loop returns is at most \<open>max_attempts\<close>.
\<close>

theorem guess_loop_terminates:
  assumes "0 < max_attempts"
    and "\<forall>line \<in> lset stdin. \<not> rejected to_int max_range line"
  shows "\<exists>out stdin' rng' r.
           guess_loop to_int player_name secret_number max_attempts max_range
             \<lparr>attempts_made = 0, last_guess = None, game_won = False\<rparr> rng stdin []
             = Some (out, stdin', rng', r)
           \<and> int (length (filter is_attempts_left out)) \<le> max_attempts
           \<and> (\<forall>k. Attempts_left k \<in> set out \<longrightarrow> 1 \<le> k \<and> k \<le> max_attempts)
           \<and> (\<forall>s'. r = Inr s' \<longrightarrow> 0 \<le> attempts_made s' \<and> attempts_made s' \<le> max_attempts)"
proof -
  have "attempts_made \<lparr>attempts_made = 0, last_guess = None, game_won = False\<rparr> \<le> max_attempts"
    using assms(1) by simp
  from guess_loop_bounded [OF assms(2) this, of player_name secret_number rng "[]"]
  show ?thesis
    by simp
qed

lemma lset_repeat_line_aux: "y \<in> lset xs \<Longrightarrow> xs = repeat_line x \<Longrightarrow> y = x"
proof (induction rule: llist.set_induct)
  case (LCons1 z1 z2)
  then have "z1 = lhd (repeat_line x)"
    by (metis llist.sel(1))
  then show ?case
    by simp
next
  case (LCons2 z1 z2 xa)
  then have "z2 = ltl (repeat_line x)"
    by (metis llist.sel(2))
  with LCons2 show ?case
    by simp
qed

lemma lset_repeat_line: "y \<in> lset (repeat_line x) \<Longrightarrow> y = x"
  by (rule lset_repeat_line_aux [OF _ refl])


text \<open>
  The theorem for a player who types 7 for ever, with five attempts and the secret 50.
\<close>

theorem guess_loop_terminates_witness:
  "\<exists>out stdin' rng' r.
     guess_loop decimal_int ''Ann'' 50 5 100
       \<lparr>attempts_made = 0, last_guess = None, game_won = False\<rparr> (sconst 0)
       (repeat_line ''7'') []
       = Some (out, stdin', rng', r)
     \<and> int (length (filter is_attempts_left out)) \<le> 5
     \<and> (\<forall>k. Attempts_left k \<in> set out \<longrightarrow> 1 \<le> k \<and> k \<le> 5)
     \<and> (\<forall>s'. r = Inr s' \<longrightarrow> 0 \<le> attempts_made s' \<and> attempts_made s' \<le> 5)"
proof -
  have p: "(0::int) < 5"
    by simp
  have v: "\<forall>line \<in> lset (repeat_line ''7''). \<not> rejected decimal_int 100 line"
    by (auto dest!: lset_repeat_line simp: rejected_def decimal_int_examples)
  from guess_loop_terminates [OF p v] show ?thesis
    by blast
qed

section \<open>Write failures: proofs\<close>

lemma save_write_failure:
  assumes "w \<noteq> Write_ok"
    and "load_high_scores fs = (out0, Inr scores)"
    and "sorted_by_attempts (scores @ [score]) = Inr scores'"
  shows "save_high_score w score fs
         = (out0 @ [Error_saving],
            Inr (case w of Open_refused \<Rightarrow> fs | Write_torn \<Rightarrow> Undecodable
                 | _ \<Rightarrow> Holds (Arr scores')))"
  using assms by (cases w) (simp_all add: save_high_score_def)

lemma menu_play_keeps_high_scores:
  "menu_iteration lib today w high_scores (LCons ''1'' stdin) rng fs
     = Some (out, stdin', rng', fs', Inr r) \<Longrightarrow> r = Some high_scores"
  by (auto simp: menu_iteration_def split: option.splits sum.splits prod.splits)

text \<open>
  Claim C7, amended. Whenever \<^verbatim>\<open>save_high_score\<close> gets as far as the write (the
  load and the sort have not raised) and the write fails, at \<^verbatim>\<open>open\<close> or later, it
  returns normally after printing its error message; the game that called it goes on to
  its last prompt and returns; and the pass of the main menu that played the game leaves
  the list of scores the menu holds in memory as it was, without the new score.
\<close>

theorem write_failure_contained:
  assumes "w \<noteq> Write_ok"
    and "load_high_scores fs = (out0, Inr scores)"
    and "sorted_by_attempts (scores @ [score]) = Inr scores'"
  shows "(\<exists>fs'. save_high_score w score fs = (out0 @ [Error_saving], Inr fs'))
         \<and> (game_won s
              \<and> score = score_record player_name difficulty_choice (attempts_made s) today
            \<longrightarrow> (\<exists>fs'. finish_game today w player_name difficulty_choice secret_number s
                        (LCons line rest) fs
                      = (out0 @ [Error_saving, Score_saved], rest, fs', Inr ())))
         \<and> (menu_iteration lib today w high_scores (LCons ''1'' stdin) rng fs
               = Some (out, stdin', rng', fs', Inr r) \<longrightarrow> r = Some high_scores)"
proof (intro conjI impI)
  from save_write_failure [OF assms]
  show "\<exists>fs'. save_high_score w score fs = (out0 @ [Error_saving], Inr fs')"
    by blast
next
  assume "game_won s
          \<and> score = score_record player_name difficulty_choice (attempts_made s) today"
  with save_write_failure [OF assms]
  show "\<exists>fs'. finish_game today w player_name difficulty_choice secret_number s
                (LCons line rest) fs
              = (out0 @ [Error_saving, Score_saved], rest, fs', Inr ())"
    by (simp add: finish_game_def press_enter_def)
next
  assume "menu_iteration lib today w high_scores (LCons ''1'' stdin) rng fs
               = Some (out, stdin', rng', fs', Inr r)"
  then show "r = Some high_scores"
    by (rule menu_play_keeps_high_scores)
qed

lemma get_difficulty_choice_LCons:
  "get_difficulty_choice lower (LCons line rest) out
     = (if map_of DIFFICULTIES (lower line) \<noteq> None then Some (out, rest, Inr (lower line))
        else get_difficulty_choice lower rest (out @ [Invalid_difficulty]))"
  by (subst get_difficulty_choice.simps) simp

lemma menu_play_example:
  "menu_iteration \<lparr>py_int = decimal_int, py_strip = (\<lambda>x. x), py_lower = (\<lambda>x. x)\<rparr>
     ''2024-05-01'' Open_refused [score_record ''Dee'' ''easy'' 4 ''2024-04-30'']
     (LCons ''1'' (prepend [''Ann'', ''easy'', ''50'', []] LNil)) (sconst 49)
     (Holds (Arr [score_record ''Dee'' ''easy'' 4 ''2024-04-30'']))
   = Some ([Attempts_left 10, Prompt_guess 100, Congratulations ''Ann'' 50 1, Error_saving,
            Score_saved], LNil, sconst 49,
           Holds (Arr [score_record ''Dee'' ''easy'' 4 ''2024-04-30'']),
           Inr (Some [score_record ''Dee'' ''easy'' 4 ''2024-04-30'']))"
  apply (simp add: menu_iteration_def play_game_def get_player_name_def
      get_difficulty_choice_LCons DIFFICULTIES_def generate_secret_number_def randint_def
      randbelow_def)
  apply (subst guess_loop.simps)
  apply (simp add: get_user_guess_accepted decimal_int_examples guess_round_def
      finish_game_def save_high_score_def sorted_by_attempts_def sort_keyed_def
      score_record_def attempts_key_def press_enter_def)
  done

text \<open>
  The theorem for a game won at the first guess while \<^verbatim>\<open>open\<close> is refused, with one
  earlier record in the file and in memory.
\<close>

theorem write_failure_contained_witness:
  "save_high_score Open_refused (score_record ''Ann'' ''easy'' 1 ''2024-05-01'')
     (Holds (Arr [score_record ''Dee'' ''easy'' 4 ''2024-04-30'']))
     = ([Error_saving], Inr (Holds (Arr [score_record ''Dee'' ''easy'' 4 ''2024-04-30''])))
   \<and> finish_game ''2024-05-01'' Open_refused ''Ann'' ''easy'' 50
        \<lparr>attempts_made = 1, last_guess = Some 50, game_won = True\<rparr> (LCons [] LNil)
        (Holds (Arr [score_record ''Dee'' ''easy'' 4 ''2024-04-30'']))
     = ([Error_saving, Score_saved], LNil,
        Holds (Arr [score_record ''Dee'' ''easy'' 4 ''2024-04-30'']), Inr ())
   \<and> (\<exists>out stdin' rng' fs' r.
         menu_iteration \<lparr>py_int = decimal_int, py_strip = (\<lambda>x. x), py_lower = (\<lambda>x. x)\<rparr>
           ''2024-05-01'' Open_refused [score_record ''Dee'' ''easy'' 4 ''2024-04-30'']
           (LCons ''1'' (prepend [''Ann'', ''easy'', ''50'', []] LNil)) (sconst 49)
           (Holds (Arr [score_record ''Dee'' ''easy'' 4 ''2024-04-30'']))
         = Some (out, stdin', rng', fs', Inr r)
         \<and> Error_saving \<in> set out
         \<and> r = Some [score_record ''Dee'' ''easy'' 4 ''2024-04-30''])"
proof -
  let ?dee = "score_record ''Dee'' ''easy'' 4 ''2024-04-30''"
  let ?ann = "score_record ''Ann'' ''easy'' 1 ''2024-05-01''"
  let ?s = "\<lparr>attempts_made = 1, last_guess = Some 50, game_won = True\<rparr>"
  have w: "Open_refused \<noteq> Write_ok"
    by simp
  have l: "load_high_scores (Holds (Arr [?dee])) = ([], Inr [?dee])"
    by (simp add: sorted_by_attempts_def sort_keyed_def score_record_def attempts_key_def)
  have so: "sorted_by_attempts ([?dee] @ [?ann]) = Inr [?ann, ?dee]"
    by (simp add: sorted_by_attempts_def sort_keyed_def score_record_def attempts_key_def)
  note t = write_failure_contained [OF w l so,
      where s = ?s and today = "''2024-05-01''" and player_name = "''Ann''"
        and difficulty_choice = "''easy''" and secret_number = 50 and line = "[]"
        and rest = LNil
        and lib = "\<lparr>py_int = decimal_int, py_strip = (\<lambda>x. x), py_lower = (\<lambda>x. x)\<rparr>"
        and high_scores = "[?dee]"
        and stdin = "prepend [''Ann'', ''easy'', ''50'', []] LNil" and rng = "sconst 49"
        and out = "[Attempts_left 10, Prompt_guess 100, Congratulations ''Ann'' 50 1,
                    Error_saving, Score_saved]"
        and stdin' = LNil and rng' = "sconst 49" and fs' = "Holds (Arr [?dee])"
        and r = "Some [?dee]"]
  from t l so have 1: "save_high_score Open_refused ?ann (Holds (Arr [?dee]))
                      = ([Error_saving], Inr (Holds (Arr [?dee])))"
    by (auto simp: save_high_score_def)
  from t l so have 2: "finish_game ''2024-05-01'' Open_refused ''Ann'' ''easy'' 50 ?s
                      (LCons [] LNil) (Holds (Arr [?dee]))
                    = ([Error_saving, Score_saved], LNil, Holds (Arr [?dee]), Inr ())"
    by (auto simp: finish_game_def press_enter_def save_high_score_def)
  from menu_play_example t 1 2 show ?thesis
    by simp
qed

text \<open>
  Claim C7 as stated, for a write that fails after \<^verbatim>\<open>open\<close> has truncated the
  file. The file and the menu both hold one record. A game is won and its save fails:
  the error is reported, the menu still holds the old record, the new one is nowhere,
  and the file no longer decodes. The player then views the leaderboard: the old record
  is shown, the menu reloads, and the list it holds in memory for the rest of the run
  is empty.
\<close>

theorem write_failure_counterexample:
  "menu_iteration \<lparr>py_int = decimal_int, py_strip = (\<lambda>x. x), py_lower = (\<lambda>x. x)\<rparr>
     ''2024-05-01'' Write_torn [score_record ''Dee'' ''easy'' 4 ''2024-04-30'']
     (LCons ''1'' (prepend [''Ann'', ''easy'', ''50'', []] LNil)) (sconst 49)
     (Holds (Arr [score_record ''Dee'' ''easy'' 4 ''2024-04-30'']))
   = Some ([Attempts_left 10, Prompt_guess 100, Congratulations ''Ann'' 50 1, Error_saving,
            Score_saved], LNil, sconst 49, Undecodable,
           Inr (Some [score_record ''Dee'' ''easy'' 4 ''2024-04-30'']))
   \<and> menu_iteration \<lparr>py_int = decimal_int, py_strip = (\<lambda>x. x), py_lower = (\<lambda>x. x)\<rparr>
     ''2024-05-01'' Write_ok [score_record ''Dee'' ''easy'' 4 ''2024-04-30'']
     (LCons ''2'' (LCons [] LNil)) (sconst 49) Undecodable
   = Some ([Score_row 1 (JStr ''Dee'') (JStr ''easy'') (JInt 4) (JStr ''2024-04-30''),
            Warning_unreadable], LNil, sconst 49, Undecodable, Inr (Some []))"
proof (rule conjI)
  show "menu_iteration \<lparr>py_int = decimal_int, py_strip = (\<lambda>x. x), py_lower = (\<lambda>x. x)\<rparr>
     ''2024-05-01'' Write_torn [score_record ''Dee'' ''easy'' 4 ''2024-04-30'']
     (LCons ''1'' (prepend [''Ann'', ''easy'', ''50'', []] LNil)) (sconst 49)
     (Holds (Arr [score_record ''Dee'' ''easy'' 4 ''2024-04-30'']))
   = Some ([Attempts_left 10, Prompt_guess 100, Congratulations ''Ann'' 50 1, Error_saving,
            Score_saved], LNil, sconst 49, Undecodable,
           Inr (Some [score_record ''Dee'' ''easy'' 4 ''2024-04-30'']))"
    apply (simp add: menu_iteration_def play_game_def get_player_name_def
        get_difficulty_choice_LCons DIFFICULTIES_def generate_secret_number_def randint_def
        randbelow_def)
    apply (subst guess_loop.simps)
    apply (simp add: get_user_guess_accepted decimal_int_examples guess_round_def
        finish_game_def save_high_score_def sorted_by_attempts_def sort_keyed_def
        score_record_def attempts_key_def press_enter_def)
    done
next
  show "menu_iteration \<lparr>py_int = decimal_int, py_strip = (\<lambda>x. x), py_lower = (\<lambda>x. x)\<rparr>
     ''2024-05-01'' Write_ok [score_record ''Dee'' ''easy'' 4 ''2024-04-30'']
     (LCons ''2'' (LCons [] LNil)) (sconst 49) Undecodable
   = Some ([Score_row 1 (JStr ''Dee'') (JStr ''easy'') (JInt 4) (JStr ''2024-04-30''),
            Warning_unreadable], LNil, sconst 49, Undecodable, Inr (Some []))"
    by (simp add: menu_iteration_def display_leaderboard_def score_row_def score_record_def
        press_enter_def)
qed

end
